theory Spec2Isabelle
  imports Main "HOL-Library.Word" "HOL-Library.AList"
begin

unbundle bit_operations_syntax

section \<open>Python values used by \<open>sslyze/plugins/certificate_info/json_output.py\<close>\<close>

text \<open>
  Exceptions are values: every function that can raise returns \<open>error + 'a\<close>, with
  \<open>Inl\<close> for the exception.
\<close>

datatype error = AttributeError | KeyError | TypeError | UnicodeDecodeError

definition and_then :: "error + 'a \<Rightarrow> ('a \<Rightarrow> error + 'b) \<Rightarrow> error + 'b" where
  "and_then r f = (case r of Inl e \<Rightarrow> Inl e | Inr x \<Rightarrow> f x)"

text \<open>
  \<open>bytes\<close> is a list of octets. A Python \<open>str\<close> is a \<open>string\<close>; for the ASCII text this
  module produces that is the text itself, and in general it stands for the UTF-8 encoding
  of the text.
\<close>

type_synonym bytes = "8 word list"

text \<open>
  The values a \<open>Dict[str, Any]\<close> can hold. A dict is an association list in insertion
  order; \<open>d[k] = v\<close> is \<open>AList.update k v d\<close> (replace in place, or append a new key).
  \<open>Num\<close> is a native number: the module never builds one.
\<close>

datatype json = Str string | Num int | Seq "json list" | Dict "(string \<times> json) list"

type_synonym dict = "(string \<times> json) list"

definition getitem :: "dict \<Rightarrow> string \<Rightarrow> error + json" where
  "getitem d k = (case map_of d k of None \<Rightarrow> Inl KeyError | Some v \<Rightarrow> Inr v)"

definition setitem :: "dict \<Rightarrow> string \<Rightarrow> json \<Rightarrow> dict" where
  "setitem d k v = AList.update k v d"

text \<open>
  \<open>d[k1][k2] = v\<close>: the inner dict is reached through \<open>d\<close> and mutated in place, so the
  change is visible in \<open>d\<close>.
\<close>

definition setitem_in :: "dict \<Rightarrow> string \<Rightarrow> string \<Rightarrow> json \<Rightarrow> error + dict" where
  "setitem_in d k1 k2 v =
     and_then (getitem d k1) (\<lambda>inner.
       case inner of
         Dict m \<Rightarrow> Inr (setitem d k1 (Dict (setitem m k2 v)))
       | _ \<Rightarrow> Inl TypeError)"

subsection \<open>\<open>str(int)\<close>\<close>

definition digit_char :: "nat \<Rightarrow> char" where
  "digit_char n = ''0123456789'' ! n"

function str_nat :: "nat \<Rightarrow> string" where
  "str_nat n = (if n < 10 then [digit_char n] else str_nat (n div 10) @ [digit_char (n mod 10)])"
  by pat_completeness auto
termination
  by (relation "measure (\<lambda>n. n)") auto

declare str_nat.simps [simp del]

definition str_int :: "int \<Rightarrow> string" where
  "str_int i = (if i < 0 then CHR ''-'' # str_nat (nat (- i)) else str_nat (nat i))"

subsection \<open>\<open>bytes.decode\<close> and \<open>base64.b64encode\<close>\<close>

text \<open>
  Well-formed UTF-8: the byte sequences the strict decoder accepts.
\<close>

definition continuation :: "8 word \<Rightarrow> bool" where
  "continuation b = (0x80 \<le> b \<and> b \<le> 0xBF)"

fun well_formed_utf8 :: "bytes \<Rightarrow> bool" where
  "well_formed_utf8 [] = True"
| "well_formed_utf8 (a # bs) =
     (if a < 0x80 then well_formed_utf8 bs
      else if 0xC2 \<le> a \<and> a \<le> 0xDF then
        (case bs of b # r \<Rightarrow> continuation b \<and> well_formed_utf8 r | _ \<Rightarrow> False)
      else if 0xE0 \<le> a \<and> a \<le> 0xEF then
        (case bs of
           b # c # r \<Rightarrow>
             (if a = 0xE0 then 0xA0 \<le> b \<and> b \<le> 0xBF
              else if a = 0xED then 0x80 \<le> b \<and> b \<le> 0x9F
              else continuation b)
             \<and> continuation c \<and> well_formed_utf8 r
         | _ \<Rightarrow> False)
      else if 0xF0 \<le> a \<and> a \<le> 0xF4 then
        (case bs of
           b # c # d # r \<Rightarrow>
             (if a = 0xF0 then 0x90 \<le> b \<and> b \<le> 0xBF
              else if a = 0xF4 then 0x80 \<le> b \<and> b \<le> 0x8F
              else continuation b)
             \<and> continuation c \<and> continuation d \<and> well_formed_utf8 r
         | _ \<Rightarrow> False)
      else False)"

text \<open>
  \<open>bytes.decode\<close> for the two codecs the module names: \<open>ascii\<close>, and otherwise \<open>utf-8\<close>.
\<close>

definition decode :: "bytes \<Rightarrow> string \<Rightarrow> error + string" where
  "decode bs codec =
     (if codec = ''ascii'' then
        (if list_all (\<lambda>b. b < 0x80) bs then Inr (map (\<lambda>b. char_of (unat b)) bs) else Inl UnicodeDecodeError)
      else
        (if well_formed_utf8 bs then Inr (map (\<lambda>b. char_of (unat b)) bs) else Inl UnicodeDecodeError))"

definition b64_alphabet :: string where
  "b64_alphabet = ''ABCDEFGHIJKLMNOPQRSTUVWXYZabcdefghijklmnopqrstuvwxyz0123456789+/''"

definition b64_char :: "nat \<Rightarrow> 8 word" where
  "b64_char i = of_char (b64_alphabet ! i)"

text \<open>
  Three octets give four characters of six bits each; one or two remaining octets are
  padded with \<open>=\<close> (0x3D).
\<close>

fun b64encode :: "bytes \<Rightarrow> bytes" where
  "b64encode [] = []"
| "b64encode [a] =
     [b64_char (unat a div 4), b64_char (unat a mod 4 * 16), 0x3D, 0x3D]"
| "b64encode [a, b] =
     [b64_char (unat a div 4), b64_char (unat a mod 4 * 16 + unat b div 16),
      b64_char (unat b mod 16 * 4), 0x3D]"
| "b64encode (a # b # c # bs) =
     [b64_char (unat a div 4), b64_char (unat a mod 4 * 16 + unat b div 16),
      b64_char (unat b mod 16 * 4 + unat c div 64), b64_char (unat c mod 64)]
     @ b64encode bs"

subsection \<open>\<open>datetime.strftime\<close>\<close>

text \<open>
  A naive \<open>datetime\<close> (the library returns the validity dates without a time zone).
\<close>

record datetime =
  year :: nat
  month :: nat
  day :: nat
  hour :: nat
  minute :: nat
  second :: nat
  microsecond :: nat

definition zero_pad :: "nat \<Rightarrow> nat \<Rightarrow> string" where
  "zero_pad w n = replicate (w - length (str_nat n)) (CHR ''0'') @ str_nat n"

text \<open>
  The six directives the module's format uses, and \<open>%%\<close>. \<open>%Y\<close> is the year as a
  decimal number, which the C library does not zero-fill: the year 500 is written
  \<open>500\<close>. The other five are written in two digits. The library's other directives are
  not modelled: the text of such a directive is kept.
\<close>

definition directive :: "char \<Rightarrow> datetime \<Rightarrow> string" where
  "directive d dt =
     (if d = CHR ''Y'' then str_nat (year dt)
      else if d = CHR ''m'' then zero_pad 2 (month dt)
      else if d = CHR ''d'' then zero_pad 2 (day dt)
      else if d = CHR ''H'' then zero_pad 2 (hour dt)
      else if d = CHR ''M'' then zero_pad 2 (minute dt)
      else if d = CHR ''S'' then zero_pad 2 (second dt)
      else if d = CHR ''%'' then [CHR ''%'']
      else [CHR ''%'', d])"

fun strftime :: "datetime \<Rightarrow> string \<Rightarrow> string" where
  "strftime dt [] = []"
| "strftime dt [c] = [c]"
| "strftime dt (c # d # fmt) =
     (if c = CHR ''%'' then directive d dt @ strftime dt fmt else c # strftime dt (d # fmt))"

section \<open>The objects of the \<open>cryptography\<close> library, as the module reads them\<close>

datatype ObjectIdentifier = ObjectIdentifier (dotted_string: string)

datatype Encoding = PEM | DER

datatype Name = Name (rfc4514_string: string)

datatype HashAlgorithm = HashAlgorithm (hash_name: string)

datatype EllipticCurve = EllipticCurve (curve_name: string) (curve_key_size: int)

text \<open>
  The public keys a certificate can carry. An RSA key has \<open>key_size\<close> and
  \<open>public_numbers().e\<close>; a DSA key has \<open>key_size\<close>, and its \<open>public_numbers()\<close> has no
  \<open>e\<close>; an elliptic-curve key has \<open>curve\<close>; an Ed25519 or Ed448 key has neither
  \<open>key_size\<close> nor \<open>public_numbers\<close>. \<open>RSAPublicKey n e\<close> is a key of \<open>key_size\<close> \<open>n\<close> and
  public exponent \<open>e\<close>, \<open>DSAPublicKey n\<close> a key of \<open>key_size\<close> \<open>n\<close>.
\<close>

datatype key_variant =
    RSAPublicKey int int
  | DSAPublicKey int
  | EllipticCurvePublicKey EllipticCurve
  | Ed25519PublicKey
  | Ed448PublicKey

text \<open>
  A key object: the name of its runtime class (\<open>__class__.__name__\<close>) and what it holds.
\<close>

record PublicKey =
  class_name :: string
  variant :: key_variant

fun isinstance_EllipticCurvePublicKey :: "PublicKey \<Rightarrow> bool" where
  "isinstance_EllipticCurvePublicKey k =
     (case variant k of EllipticCurvePublicKey _ \<Rightarrow> True | _ \<Rightarrow> False)"

fun curve :: "PublicKey \<Rightarrow> error + EllipticCurve" where
  "curve k = (case variant k of EllipticCurvePublicKey c \<Rightarrow> Inr c | _ \<Rightarrow> Inl AttributeError)"

fun key_size :: "PublicKey \<Rightarrow> error + int" where
  "key_size k =
     (case variant k of
        RSAPublicKey n e \<Rightarrow> Inr n
      | DSAPublicKey n \<Rightarrow> Inr n
      | EllipticCurvePublicKey c \<Rightarrow> Inr (curve_key_size c)
      | _ \<Rightarrow> Inl AttributeError)"

fun public_numbers_e :: "PublicKey \<Rightarrow> error + int" where
  "public_numbers_e k =
     (case variant k of RSAPublicKey n e \<Rightarrow> Inr e | _ \<Rightarrow> Inl AttributeError)"

text \<open>
  A parsed certificate, by the accessors the module calls.
  \<open>signature_hash_algorithm\<close> is \<open>None\<close> for a signature scheme without a separate hash.
\<close>

record Certificate =
  public_bytes :: "Encoding \<Rightarrow> bytes"
  subject :: Name
  issuer :: Name
  serial_number :: int
  not_valid_before :: datetime
  not_valid_after :: datetime
  signature_hash_algorithm :: "HashAlgorithm option"
  public_key :: PublicKey

definition name_of_hash :: "HashAlgorithm option \<Rightarrow> error + string" where
  "name_of_hash h = (case h of None \<Rightarrow> Inl AttributeError | Some a \<Rightarrow> Inr (hash_name a))"

section \<open>The module\<close>

text \<open>
  \<open>_oid_to_json\<close> and \<open>_certificate_to_json\<close> (a name here cannot begin with an
  underscore). The two helpers of \<open>certificate_utils\<close> are parameters:
  \<open>get_public_key_sha256\<close> returns digest bytes and
  \<open>extract_dns_subject_alternative_names\<close> a list of names.
\<close>

definition oid_to_json :: "ObjectIdentifier \<Rightarrow> string" where
  "oid_to_json obj = dotted_string obj"

definition certificate_to_json ::
  "(Certificate \<Rightarrow> bytes) \<Rightarrow> (Certificate \<Rightarrow> string list) \<Rightarrow> Certificate \<Rightarrow> error + dict" where
  "certificate_to_json get_public_key_sha256 extract_dns_subject_alternative_names certificate =
     and_then (decode (public_bytes certificate PEM) ''ascii'') (\<lambda>as_pem.
     and_then (decode (b64encode (get_public_key_sha256 certificate)) ''utf-8'') (\<lambda>hpkp_pin.
     and_then (name_of_hash (signature_hash_algorithm certificate)) (\<lambda>signatureAlgorithm.
       let result =
             [(''as_pem'', Str as_pem),
              (''hpkp_pin'', Str hpkp_pin),
              (''subject'', Str (rfc4514_string (subject certificate))),
              (''issuer'', Str (rfc4514_string (issuer certificate))),
              (''serialNumber'', Str (str_int (serial_number certificate))),
              (''notBefore'', Str (strftime (not_valid_before certificate) ''%Y-%m-%d %H:%M:%S'')),
              (''notAfter'', Str (strftime (not_valid_after certificate) ''%Y-%m-%d %H:%M:%S'')),
              (''signatureAlgorithm'', Str signatureAlgorithm),
              (''publicKey'', Dict [(''algorithm'', Str (class_name (public_key certificate)))])];
           dns_alt_names = extract_dns_subject_alternative_names certificate;
           result =
             (if dns_alt_names \<noteq> [] then
                setitem result ''subjectAlternativeName''
                  (Dict [(''DNS'', Seq (map Str dns_alt_names))])
              else result);
           public_key = public_key certificate
       in
         if isinstance_EllipticCurvePublicKey public_key then
           and_then (curve public_key) (\<lambda>c.
           and_then (setitem_in result ''publicKey'' ''size'' (Str (str_int (curve_key_size c)))) (\<lambda>result.
           and_then (curve public_key) (\<lambda>c.
           setitem_in result ''publicKey'' ''curve'' (Str (curve_name c)))))
         else
           and_then (key_size public_key) (\<lambda>n.
           and_then (setitem_in result ''publicKey'' ''size'' (Str (str_int n))) (\<lambda>result.
           and_then (public_numbers_e public_key) (\<lambda>e.
           setitem_in result ''publicKey'' ''exponent'' (Str (str_int e))))))))"

text \<open>
  The types the serializer dispatches on, and the handlers registered for them.
\<close>

datatype py_type = ObjectIdentifier_type | Certificate_type | Other_type string

datatype handler =
    Oid_handler "ObjectIdentifier \<Rightarrow> string"
  | Certificate_handler "Certificate \<Rightarrow> error + dict"
  | Other_handler string

text \<open>
  Modelled from the spec: the \<open>register\<close> operation of the generic serializer's dispatch
  table (\<open>object_to_json\<close> of \<open>sslyze.cli.json_output\<close>, whose code is not at hand). The
  table is keyed by type and holds one handler for a key; registering a handler for a type
  that has one replaces it.
\<close>

definition dispatch_register ::
  "py_type \<Rightarrow> handler \<Rightarrow> (py_type \<rightharpoonup> handler) \<Rightarrow> (py_type \<rightharpoonup> handler)" where
  "dispatch_register t h table = table(t \<mapsto> h)"

text \<open>
  What \<open>register_json_serializer_functions\<close> changes: the dispatch table, and the
  \<open>__deepcopy__\<close> attribute of the class \<open>_Certificate\<close> (\<open>None\<close> while the class has
  none). A method is the function it computes: the closure that a later call of
  \<open>register_json_serializer_functions\<close> creates is the same method.
\<close>

record 'memo process_state =
  object_to_json_registry :: "py_type \<rightharpoonup> handler"
  Certificate_deepcopy :: "(Certificate \<Rightarrow> 'memo \<Rightarrow> error + Certificate) option"

text \<open>
  The inner function of \<open>register_json_serializer_functions\<close>. The library's
  \<open>load_pem_x509_certificate\<close> is a parameter.
\<close>

definition deepcopy_method_for_x509_certificate ::
  "(bytes \<Rightarrow> error + Certificate) \<Rightarrow> Certificate \<Rightarrow> 'memo \<Rightarrow> error + Certificate" where
  "deepcopy_method_for_x509_certificate load_pem_x509_certificate inner_self memo =
     load_pem_x509_certificate (public_bytes inner_self PEM)"

definition register_json_serializer_functions ::
  "(bytes \<Rightarrow> error + Certificate) \<Rightarrow> (Certificate \<Rightarrow> bytes) \<Rightarrow> (Certificate \<Rightarrow> string list) \<Rightarrow>
   'memo process_state \<Rightarrow> 'memo process_state" where
  "register_json_serializer_functions load_pem_x509_certificate get_public_key_sha256
       extract_dns_subject_alternative_names s =
     (let table = dispatch_register ObjectIdentifier_type (Oid_handler oid_to_json)
                    (object_to_json_registry s);
          table = dispatch_register Certificate_type
                    (Certificate_handler
                       (certificate_to_json get_public_key_sha256
                          extract_dns_subject_alternative_names))
                    table
      in s\<lparr>object_to_json_registry := table,
            Certificate_deepcopy :=
              Some (deepcopy_method_for_x509_certificate load_pem_x509_certificate)\<rparr>)"

section \<open>Notions used to state the properties\<close>

definition mandatory_keys :: "string list" where
  "mandatory_keys =
     [''as_pem'', ''hpkp_pin'', ''subject'', ''issuer'', ''serialNumber'', ''notBefore'',
      ''notAfter'', ''signatureAlgorithm'', ''publicKey'']"

text \<open>The \<open>publicKey\<close> sub-mapping of a result.\<close>

definition public_key_entry :: "dict \<Rightarrow> dict option" where
  "public_key_entry r = (case map_of r ''publicKey'' of Some (Dict m) \<Rightarrow> Some m | _ \<Rightarrow> None)"

definition is_digit :: "char \<Rightarrow> bool" where
  "is_digit c = (c \<in> set ''0123456789'')"

text \<open>A decimal-digit string, and the number it denotes.\<close>

definition decimal_digits :: "string \<Rightarrow> bool" where
  "decimal_digits s = (s \<noteq> [] \<and> list_all is_digit s)"

definition digit_value :: "char \<Rightarrow> nat" where
  "digit_value c = of_char c - 48"

definition decimal_value :: "string \<Rightarrow> nat" where
  "decimal_value s = foldl (\<lambda>a c. 10 * a + digit_value c) 0 s"

text \<open>
  The decimal rendering of a number: its digits, with no leading zero except for the
  number 0 itself, after a minus sign when the number is negative.
\<close>

definition canonical_decimal :: "string \<Rightarrow> nat \<Rightarrow> bool" where
  "canonical_decimal s n =
     (decimal_digits s \<and> decimal_value s = n \<and> (s = ''0'' \<or> hd s \<noteq> CHR ''0''))"

definition decimal_rendering :: "string \<Rightarrow> int \<Rightarrow> bool" where
  "decimal_rendering s i =
     (if 0 \<le> i then canonical_decimal s (nat i)
      else (case s of [] \<Rightarrow> False | c # t \<Rightarrow> c = CHR ''-'' \<and> canonical_decimal t (nat (- i))))"







section \<open>Example certificates\<close>

definition example_datetime :: datetime where
  "example_datetime =
     \<lparr>year = 2020, month = 1, day = 2, hour = 3, minute = 4, second = 5, microsecond = 678901\<rparr>"

text \<open>An RSA certificate with a 128-bit serial number (the PEM text is cut short).\<close>

definition example_rsa_certificate :: Certificate where
  "example_rsa_certificate =
     \<lparr>public_bytes = (\<lambda>enc. if enc = PEM then map of_char ''-----BEGIN CERTIFICATE-----''
                              else [0x30, 0x82]),
      subject = Name ''CN=example.com'',
      issuer = Name ''CN=Example CA'',
      serial_number = 340282366920938463463374607431768211455,
      not_valid_before = example_datetime,
      not_valid_after = example_datetime\<lparr>year := 2021\<rparr>,
      signature_hash_algorithm = Some (HashAlgorithm ''sha256''),
      public_key = \<lparr>class_name = ''_RSAPublicKey'', variant = RSAPublicKey 2048 65537\<rparr>\<rparr>"

text \<open>The same certificate with a key object of another class.\<close>

definition example_rsa_certificate' :: Certificate where
  "example_rsa_certificate' =
     example_rsa_certificate
       \<lparr>public_key := \<lparr>class_name = ''RSAPublicKey'', variant = RSAPublicKey 2048 65537\<rparr>\<rparr>"

definition example_ec_certificate :: Certificate where
  "example_ec_certificate =
     example_rsa_certificate
       \<lparr>public_key :=
          \<lparr>class_name = ''_EllipticCurvePublicKey'',
           variant = EllipticCurvePublicKey (EllipticCurve ''secp256r1'' 256)\<rparr>\<rparr>"

definition example_dsa_certificate :: Certificate where
  "example_dsa_certificate =
     example_rsa_certificate
       \<lparr>public_key := \<lparr>class_name = ''_DSAPublicKey'', variant = DSAPublicKey 2048\<rparr>\<rparr>"

text \<open>The RSA certificate with a negative serial number.\<close>

definition example_negative_serial_certificate :: Certificate where
  "example_negative_serial_certificate = example_rsa_certificate\<lparr>serial_number := - 123\<rparr>"


definition example_digest :: "Certificate \<Rightarrow> bytes" where
  "example_digest c = [0x00, 0x01, 0xFE, 0xFF]"

definition example_dns_names :: "Certificate \<Rightarrow> string list" where
  "example_dns_names c = [''example.com'', ''www.example.com'']"

definition example_no_dns_names :: "Certificate \<Rightarrow> string list" where
  "example_no_dns_names c = []"

definition example_rsa_result :: dict where
  "example_rsa_result =
     [(''as_pem'', Str ''-----BEGIN CERTIFICATE-----''),
      (''hpkp_pin'', Str ''AAH+/w==''),
      (''subject'', Str ''CN=example.com''),
      (''issuer'', Str ''CN=Example CA''),
      (''serialNumber'', Str ''340282366920938463463374607431768211455''),
      (''notBefore'', Str ''2020-01-02 03:04:05''),
      (''notAfter'', Str ''2021-01-02 03:04:05''),
      (''signatureAlgorithm'', Str ''sha256''),
      (''publicKey'',
       Dict [(''algorithm'', Str ''_RSAPublicKey''), (''size'', Str ''2048''),
             (''exponent'', Str ''65537'')]),
      (''subjectAlternativeName'',
       Dict [(''DNS'', Seq [Str ''example.com'', Str ''www.example.com''])])]"

definition example_rsa_result' :: dict where
  "example_rsa_result' =
     [(''as_pem'', Str ''-----BEGIN CERTIFICATE-----''),
      (''hpkp_pin'', Str ''AAH+/w==''),
      (''subject'', Str ''CN=example.com''),
      (''issuer'', Str ''CN=Example CA''),
      (''serialNumber'', Str ''340282366920938463463374607431768211455''),
      (''notBefore'', Str ''2020-01-02 03:04:05''),
      (''notAfter'', Str ''2021-01-02 03:04:05''),
      (''signatureAlgorithm'', Str ''sha256''),
      (''publicKey'',
       Dict [(''algorithm'', Str ''RSAPublicKey''), (''size'', Str ''2048''),
             (''exponent'', Str ''65537'')]),
      (''subjectAlternativeName'',
       Dict [(''DNS'', Seq [Str ''example.com'', Str ''www.example.com''])])]"

definition example_ec_result :: dict where
  "example_ec_result =
     [(''as_pem'', Str ''-----BEGIN CERTIFICATE-----''),
      (''hpkp_pin'', Str ''AAH+/w==''),
      (''subject'', Str ''CN=example.com''),
      (''issuer'', Str ''CN=Example CA''),
      (''serialNumber'', Str ''340282366920938463463374607431768211455''),
      (''notBefore'', Str ''2020-01-02 03:04:05''),
      (''notAfter'', Str ''2021-01-02 03:04:05''),
      (''signatureAlgorithm'', Str ''sha256''),
      (''publicKey'',
       Dict [(''algorithm'', Str ''_EllipticCurvePublicKey''), (''size'', Str ''256''),
             (''curve'', Str ''secp256r1'')])]"

definition example_negative_serial_result :: dict where
  "example_negative_serial_result =
     [(''as_pem'', Str ''-----BEGIN CERTIFICATE-----''),
      (''hpkp_pin'', Str ''AAH+/w==''),
      (''subject'', Str ''CN=example.com''),
      (''issuer'', Str ''CN=Example CA''),
      (''serialNumber'', Str ''-123''),
      (''notBefore'', Str ''2020-01-02 03:04:05''),
      (''notAfter'', Str ''2021-01-02 03:04:05''),
      (''signatureAlgorithm'', Str ''sha256''),
      (''publicKey'',
       Dict [(''algorithm'', Str ''_RSAPublicKey''), (''size'', Str ''2048''),
             (''exponent'', Str ''65537'')]),
      (''subjectAlternativeName'',
       Dict [(''DNS'', Seq [Str ''example.com'', Str ''www.example.com''])])]"


section \<open>Evaluation on the examples\<close>

lemmas eval_simps =
  certificate_to_json_def and_then_def decode_def name_of_hash_def Let_def
  setitem_in_def setitem_def getitem_def b64_char_def b64_alphabet_def
  str_int_def str_nat.simps digit_char_def directive_def zero_pad_def char_of_eq_iff
  example_digest_def example_dns_names_def example_no_dns_names_def example_datetime_def

lemma example_rsa_returns:
  "certificate_to_json example_digest example_dns_names example_rsa_certificate =
     Inr example_rsa_result"
  by (simp add: eval_simps example_rsa_certificate_def example_rsa_result_def)

lemma example_rsa_returns':
  "certificate_to_json example_digest example_dns_names example_rsa_certificate' =
     Inr example_rsa_result'"
  by (simp add: eval_simps example_rsa_certificate_def example_rsa_certificate'_def
        example_rsa_result'_def)

lemma example_ec_returns:
  "certificate_to_json example_digest example_no_dns_names example_ec_certificate =
     Inr example_ec_result"
  by (simp add: eval_simps example_rsa_certificate_def example_ec_certificate_def
        example_ec_result_def)

lemma example_negative_serial_returns:
  "certificate_to_json example_digest example_dns_names example_negative_serial_certificate =
     Inr example_negative_serial_result"
  by (simp add: eval_simps example_rsa_certificate_def example_negative_serial_certificate_def
        example_negative_serial_result_def)


section \<open>Properties\<close>

subsection \<open>The shape of a result\<close>

lemma and_then_Inr: "and_then r f = Inr y \<longleftrightarrow> (\<exists>x. r = Inr x \<and> f x = Inr y)"
  by (cases r) (simp_all add: and_then_def)

text \<open>
  Whenever \<open>_certificate_to_json\<close> returns, the certificate's key is an RSA or an
  elliptic-curve key and the result is the mapping below.
\<close>

lemma certificate_to_json_result:
  assumes "certificate_to_json g x c = Inr r"
  shows "\<exists>as_pem hpkp_pin sig m.
    decode (public_bytes c PEM) ''ascii'' = Inr as_pem \<and>
    decode (b64encode (g c)) ''utf-8'' = Inr hpkp_pin \<and>
    signature_hash_algorithm c = Some sig \<and>
    r = [(''as_pem'', Str as_pem),
         (''hpkp_pin'', Str hpkp_pin),
         (''subject'', Str (rfc4514_string (subject c))),
         (''issuer'', Str (rfc4514_string (issuer c))),
         (''serialNumber'', Str (str_int (serial_number c))),
         (''notBefore'', Str (strftime (not_valid_before c) ''%Y-%m-%d %H:%M:%S'')),
         (''notAfter'', Str (strftime (not_valid_after c) ''%Y-%m-%d %H:%M:%S'')),
         (''signatureAlgorithm'', Str (hash_name sig)),
         (''publicKey'', Dict ((''algorithm'', Str (class_name (public_key c))) # m))]
        @ (if x c = [] then []
           else [(''subjectAlternativeName'', Dict [(''DNS'', Seq (map Str (x c)))])]) \<and>
    ((\<exists>cv. variant (public_key c) = EllipticCurvePublicKey cv \<and>
           m = [(''size'', Str (str_int (curve_key_size cv))), (''curve'', Str (curve_name cv))]) \<or>
     (\<exists>n e. variant (public_key c) = RSAPublicKey n e \<and>
           m = [(''size'', Str (str_int n)), (''exponent'', Str (str_int e))]))"
  using assms unfolding certificate_to_json_def
  by (auto simp: and_then_Inr Let_def setitem_in_def setitem_def getitem_def name_of_hash_def
           split: if_splits json.splits option.splits key_variant.splits)

subsection \<open>Decimal renderings\<close>

lemma digit_cases:
  "d < 10 \<Longrightarrow>
   d = 0 \<or> d = 1 \<or> d = 2 \<or> d = 3 \<or> d = 4 \<or> d = 5 \<or> d = 6 \<or> d = 7 \<or> d = 8 \<or> d = (9::nat)"
  by arith

lemma is_digit_digit_char: "d < 10 \<Longrightarrow> is_digit (digit_char d)"
  using digit_cases [of d] by (auto simp: is_digit_def digit_char_def)

lemma digit_value_digit_char: "d < 10 \<Longrightarrow> digit_value (digit_char d) = d"
  using digit_cases [of d] by (auto simp: digit_value_def digit_char_def)


lemma str_nat_not_Nil: "str_nat n \<noteq> []"
  by (subst str_nat.simps) simp

lemma str_nat_digits: "list_all is_digit (str_nat n)"
proof (induction n rule: str_nat.induct)
  case (1 n)
  show ?case
  proof (cases "n < 10")
    case True
    then show ?thesis by (subst str_nat.simps) (simp add: is_digit_digit_char)
  next
    case False
    with 1 show ?thesis by (subst str_nat.simps) (simp add: is_digit_digit_char)
  qed
qed

lemma decimal_value_snoc: "decimal_value (s @ [c]) = 10 * decimal_value s + digit_value c"
  by (simp add: decimal_value_def)

lemma decimal_value_str_nat: "decimal_value (str_nat n) = n"
proof (induction n rule: str_nat.induct)
  case (1 n)
  show ?case
  proof (cases "n < 10")
    case True
    then show ?thesis
      by (subst str_nat.simps) (simp add: decimal_value_def digit_value_digit_char)
  next
    case False
    with 1 have "decimal_value (str_nat (n div 10)) = n div 10" by simp
    with False show ?thesis
      by (subst str_nat.simps) (simp add: decimal_value_snoc digit_value_digit_char)
  qed
qed

lemma decimal_digits_str_nat: "decimal_digits (str_nat n)"
  by (simp add: decimal_digits_def str_nat_not_Nil str_nat_digits)

lemma digit_char_zero: "d < 10 \<Longrightarrow> digit_char d = CHR ''0'' \<Longrightarrow> d = 0"
  using digit_cases [of d] by (auto simp: digit_char_def)

lemma hd_str_nat_zero: "hd (str_nat n) = CHR ''0'' \<Longrightarrow> n = 0"
proof (induction n rule: str_nat.induct)
  case (1 n)
  show ?case
  proof (cases "n < 10")
    case True
    with 1(2) show ?thesis
      by (subst (asm) str_nat.simps) (simp add: digit_char_zero)
  next
    case False
    with 1(2) have "hd (str_nat (n div 10)) = CHR ''0''"
      by (subst (asm) str_nat.simps) (simp add: str_nat_not_Nil)
    with 1(1) False have "n div 10 = 0" by simp
    with False show ?thesis by simp
  qed
qed

lemma str_nat_zero: "str_nat 0 = ''0''"
  by (subst str_nat.simps) (simp add: digit_char_def)

lemma canonical_decimal_str_nat: "canonical_decimal (str_nat n) n"
  using hd_str_nat_zero [of n]
  by (auto simp: canonical_decimal_def decimal_digits_str_nat decimal_value_str_nat str_nat_zero)

text \<open>\<open>str\<close> of an integer of any size is its decimal rendering.\<close>

lemma decimal_rendering_str_int: "decimal_rendering (str_int i) i"
  by (simp add: decimal_rendering_def str_int_def canonical_decimal_str_nat)

text \<open>A rendering denotes one integer only: nothing of the number is lost.\<close>

lemma decimal_rendering_exact:
  assumes "decimal_rendering s i" and "decimal_rendering s j"
  shows "i = j"
proof -
  have neg: "\<not> canonical_decimal (CHR ''-'' # t) n" for t n
    by (simp add: canonical_decimal_def decimal_digits_def is_digit_def)
  show ?thesis
  proof (cases "0 \<le> i")
    case True
    note i = this
    show ?thesis
    proof (cases "0 \<le> j")
      case True
      with i assms show ?thesis
        by (simp add: decimal_rendering_def canonical_decimal_def)
    next
      case False
      with i assms neg show ?thesis
        by (auto simp: decimal_rendering_def split: list.splits)
    qed
  next
    case False
    note i = this
    show ?thesis
    proof (cases "0 \<le> j")
      case True
      with i assms neg show ?thesis
        by (auto simp: decimal_rendering_def split: list.splits)
    next
      case False
      with i assms show ?thesis
        by (auto simp: decimal_rendering_def canonical_decimal_def split: list.splits)
    qed
  qed
qed

lemma decimal_digits_if_rendering: "decimal_rendering s i \<Longrightarrow> 0 \<le> i \<Longrightarrow> decimal_digits s"
  by (simp add: decimal_rendering_def canonical_decimal_def)

subsection \<open>The timestamp format\<close>

















subsection \<open>Where the function returns\<close>

lemma b64_alphabet_ascii: "list_all (\<lambda>c. (of_char c :: 8 word) < 0x80) b64_alphabet"
  by (simp add: b64_alphabet_def)

lemma b64_char_ascii: "i < 64 \<Longrightarrow> b64_char i < 0x80"
proof -
  assume "i < 64"
  then have "i < length b64_alphabet"
    by (simp add: b64_alphabet_def)
  with b64_alphabet_ascii show ?thesis
    unfolding b64_char_def list_all_length by blast
qed

lemma unat_octet: "unat (a :: 8 word) < 256"
  using unsigned_less [of a, where 'a = nat] by simp

lemma b64encode_ascii: "list_all (\<lambda>b. b < 0x80) (b64encode bs)"
proof (induction bs rule: b64encode.induct)
  case 1
  then show ?case by simp
next
  case (2 a)
  have "unat a div 4 < 64" "unat a mod 4 * 16 < 64"
    using unat_octet [of a] by arith+
  then show ?case by (simp add: b64_char_ascii)
next
  case (3 a b)
  have "unat a div 4 < 64" "unat a mod 4 * 16 + unat b div 16 < 64" "unat b mod 16 * 4 < 64"
    using unat_octet [of a] unat_octet [of b] by arith+
  then show ?case by (simp add: b64_char_ascii)
next
  case (4 a b c bs)
  have "unat a div 4 < 64" "unat a mod 4 * 16 + unat b div 16 < 64"
    "unat b mod 16 * 4 + unat c div 64 < 64" "unat c mod 64 < 64"
    using unat_octet [of a] unat_octet [of b] unat_octet [of c] by arith+
  with 4 show ?case by (simp add: b64_char_ascii)
qed

lemma ascii_well_formed: "list_all (\<lambda>b. b < 0x80) bs \<Longrightarrow> well_formed_utf8 bs"
  by (induction bs) simp_all

text \<open>The pin never fails to decode: Base64 text is ASCII.\<close>

lemma decode_b64encode:
  "decode (b64encode bs) ''utf-8'' = Inr (map (\<lambda>b. char_of (unat b)) (b64encode bs))"
  by (simp add: decode_def ascii_well_formed b64encode_ascii)

text \<open>
  \<open>_certificate_to_json\<close> returns exactly for the certificates whose PEM encoding is
  ASCII, whose signature has a hash algorithm, and whose key is an RSA or an
  elliptic-curve key.
\<close>

lemma certificate_to_json_returns_iff:
  "(\<exists>r. certificate_to_json g x c = Inr r) \<longleftrightarrow>
     list_all (\<lambda>b. b < 0x80) (public_bytes c PEM) \<and>
     signature_hash_algorithm c \<noteq> None \<and>
     (case variant (public_key c) of
        RSAPublicKey n e \<Rightarrow> True
      | EllipticCurvePublicKey cv \<Rightarrow> True
      | _ \<Rightarrow> False)"
proof
  assume "\<exists>r. certificate_to_json g x c = Inr r"
  then obtain r where "certificate_to_json g x c = Inr r" ..
  from certificate_to_json_result [OF this]
  show "list_all (\<lambda>b. b < 0x80) (public_bytes c PEM) \<and>
     signature_hash_algorithm c \<noteq> None \<and>
     (case variant (public_key c) of
        RSAPublicKey n e \<Rightarrow> True
      | EllipticCurvePublicKey cv \<Rightarrow> True
      | _ \<Rightarrow> False)"
    by (auto simp: decode_def split: if_splits)
next
  assume "list_all (\<lambda>b. b < 0x80) (public_bytes c PEM) \<and>
     signature_hash_algorithm c \<noteq> None \<and>
     (case variant (public_key c) of
        RSAPublicKey n e \<Rightarrow> True
      | EllipticCurvePublicKey cv \<Rightarrow> True
      | _ \<Rightarrow> False)"
  then show "\<exists>r. certificate_to_json g x c = Inr r"
    unfolding certificate_to_json_def
    by (auto simp: ascii_well_formed b64encode_ascii decode_def and_then_def Let_def setitem_in_def setitem_def
             getitem_def name_of_hash_def split: key_variant.splits)
qed

subsection \<open>The properties of the specification\<close>

text \<open>
  C1. The mapping \<open>_certificate_to_json\<close> returns has exactly the nine mandatory keys,
  followed by \<open>subjectAlternativeName\<close> if and only if the list of DNS names extracted
  from the certificate is not empty; that key then holds \<open>{"DNS": names}\<close>. No other key
  appears.
\<close>

theorem certificate_to_json_keys:
  assumes "certificate_to_json g x c = Inr r"
  shows "map fst r = mandatory_keys @ (if x c = [] then [] else [''subjectAlternativeName'']) \<and>
         map_of r ''subjectAlternativeName'' =
           (if x c = [] then None else Some (Dict [(''DNS'', Seq (map Str (x c)))]))"
  using certificate_to_json_result [OF assms] unfolding mandatory_keys_def
  by auto

theorem certificate_to_json_keys_witness:
  "certificate_to_json example_digest example_dns_names example_rsa_certificate =
     Inr example_rsa_result \<and>
   map fst example_rsa_result = mandatory_keys @ [''subjectAlternativeName''] \<and>
   map_of example_rsa_result ''subjectAlternativeName'' =
     Some (Dict [(''DNS'', Seq [Str ''example.com'', Str ''www.example.com''])]) \<and>
   certificate_to_json example_digest example_no_dns_names example_ec_certificate =
     Inr example_ec_result \<and>
   map fst example_ec_result = mandatory_keys \<and>
   map_of example_ec_result ''subjectAlternativeName'' = None"
  using example_rsa_returns certificate_to_json_keys [OF example_rsa_returns]
    example_ec_returns certificate_to_json_keys [OF example_ec_returns]
  by (simp add: example_dns_names_def example_no_dns_names_def)

text \<open>
  C2. The \<open>publicKey\<close> sub-mapping of a returned mapping has the key \<open>algorithm\<close>, then
  \<open>size\<close>, then exactly one of \<open>curve\<close> (for an elliptic-curve key) and \<open>exponent\<close> (for
  any other key): never both, never neither.
\<close>

theorem certificate_to_json_public_key_keys:
  assumes "certificate_to_json g x c = Inr r"
  shows "\<exists>m. public_key_entry r = Some m \<and>
           map fst m = (if isinstance_EllipticCurvePublicKey (public_key c)
                        then [''algorithm'', ''size'', ''curve'']
                        else [''algorithm'', ''size'', ''exponent''])"
  using certificate_to_json_result [OF assms] unfolding public_key_entry_def
  by auto

theorem certificate_to_json_public_key_keys_witness:
  "certificate_to_json example_digest example_no_dns_names example_ec_certificate =
     Inr example_ec_result \<and>
   (\<exists>m. public_key_entry example_ec_result = Some m \<and>
        map fst m = [''algorithm'', ''size'', ''curve'']) \<and>
   certificate_to_json example_digest example_dns_names example_rsa_certificate =
     Inr example_rsa_result \<and>
   (\<exists>m. public_key_entry example_rsa_result = Some m \<and>
        map fst m = [''algorithm'', ''size'', ''exponent''])"
  using example_ec_returns certificate_to_json_public_key_keys [OF example_ec_returns]
    example_rsa_returns certificate_to_json_public_key_keys [OF example_rsa_returns]
  by (simp add: example_ec_certificate_def example_rsa_certificate_def)

text \<open>
  C3. \<open>_certificate_to_json\<close> is not total over the certificates the library parses: on a
  certificate with a DSA key the branch for keys that are not elliptic-curve keys reads
  \<open>public_numbers().e\<close>, which DSA public numbers do not have, and the call raises
  \<open>AttributeError\<close>.
\<close>

theorem certificate_to_json_dsa_key_raises:
  "certificate_to_json example_digest example_dns_names example_dsa_certificate =
     Inl AttributeError"
  by (simp add: eval_simps example_rsa_certificate_def example_dsa_certificate_def)

text \<open>
  C4. Not every returned mapping has decimal-digit strings for its numbers: the serial
  number -123, which the parser hands over, is written \<open>-123\<close>.
\<close>

theorem certificate_to_json_negative_serial_counterexample:
  "certificate_to_json example_digest example_dns_names example_negative_serial_certificate =
     Inr example_negative_serial_result \<and>
   serial_number example_negative_serial_certificate = - 123 \<and>
   map_of example_negative_serial_result ''serialNumber'' = Some (Str ''-123'') \<and>
   \<not> decimal_digits ''-123''"
  using example_negative_serial_returns
  by (simp add: example_negative_serial_certificate_def example_negative_serial_result_def
        decimal_digits_def is_digit_def)

text \<open>
  C4, as amended. In a returned mapping \<open>serialNumber\<close>, \<open>publicKey.size\<close> and, when
  present, \<open>publicKey.exponent\<close> are strings, never native numbers. Each string is the
  decimal rendering of the certificate's number, whatever its size: its decimal digits with
  no leading zero, after a minus sign when the number is negative. So it is a
  decimal-digit string exactly when the number is not negative, and it denotes that number
  and no other. \<open>exponent\<close> is present exactly for a key that is not an elliptic-curve
  key.
\<close>

theorem certificate_to_json_numbers_are_strings:
  assumes "certificate_to_json g x c = Inr r"
  shows "\<exists>s m z.
           map_of r ''serialNumber'' = Some (Str s) \<and>
           decimal_rendering s (serial_number c) \<and>
           (decimal_digits s \<longleftrightarrow> 0 \<le> serial_number c) \<and>
           (\<forall>j. decimal_rendering s j \<longrightarrow> j = serial_number c) \<and>
           public_key_entry r = Some m \<and>
           map_of m ''size'' = Some (Str z) \<and>
           (if isinstance_EllipticCurvePublicKey (public_key c)
            then (\<exists>cv. curve (public_key c) = Inr cv \<and>
                    decimal_rendering z (curve_key_size cv)) \<and>
                 map_of m ''exponent'' = None
            else (\<exists>n e t. key_size (public_key c) = Inr n \<and>
                    decimal_rendering z n \<and>
                    public_numbers_e (public_key c) = Inr e \<and>
                    map_of m ''exponent'' = Some (Str t) \<and>
                    decimal_rendering t e \<and>
                    (\<forall>j. decimal_rendering t j \<longrightarrow> j = e)))"
proof -
  have digits: "decimal_digits (str_int i) \<longleftrightarrow> 0 \<le> i" for i
    using decimal_rendering_str_int [of i]
    by (auto simp: decimal_rendering_def canonical_decimal_def decimal_digits_def
          is_digit_def str_int_def)
  have only: "\<forall>j. decimal_rendering (str_int i) j \<longrightarrow> j = i" for i
    using decimal_rendering_exact [OF _ decimal_rendering_str_int [of i]] by blast
  from certificate_to_json_result [OF assms] show ?thesis
    unfolding public_key_entry_def
    by (auto simp: decimal_rendering_str_int digits only)
qed

theorem certificate_to_json_numbers_are_strings_witness:
  "certificate_to_json example_digest example_dns_names example_rsa_certificate =
     Inr example_rsa_result \<and>
   (\<exists>s m z t.
      map_of example_rsa_result ''serialNumber'' = Some (Str s) \<and>
      decimal_rendering s 340282366920938463463374607431768211455 \<and>
      decimal_digits s \<and>
      public_key_entry example_rsa_result = Some m \<and>
      map_of m ''size'' = Some (Str z) \<and> decimal_rendering z 2048 \<and>
      map_of m ''exponent'' = Some (Str t) \<and> decimal_rendering t 65537) \<and>
   certificate_to_json example_digest example_dns_names example_negative_serial_certificate =
     Inr example_negative_serial_result \<and>
   (\<exists>s. map_of example_negative_serial_result ''serialNumber'' = Some (Str s) \<and>
        decimal_rendering s (- 123) \<and> \<not> decimal_digits s)"
  using example_rsa_returns certificate_to_json_numbers_are_strings [OF example_rsa_returns]
    example_negative_serial_returns
    certificate_to_json_numbers_are_strings [OF example_negative_serial_returns]
  by (auto simp: example_rsa_certificate_def example_negative_serial_certificate_def)

text \<open>
  C6. Registering again changes nothing: after any number of calls the state is the state
  after one call. The dispatch table then holds one handler for \<open>ObjectIdentifier\<close> and
  one for \<open>Certificate\<close> (the two functions of this module), every other entry is as it
  was, and the certificate class has one copy method.
\<close>

theorem register_json_serializer_functions_idempotent:
  "register_json_serializer_functions l g x (register_json_serializer_functions l g x s) =
     register_json_serializer_functions l g x s \<and>
   (register_json_serializer_functions l g x ^^ Suc n) s =
     register_json_serializer_functions l g x s \<and>
   object_to_json_registry (register_json_serializer_functions l g x s) =
     (object_to_json_registry s)
       (ObjectIdentifier_type \<mapsto> Oid_handler oid_to_json,
        Certificate_type \<mapsto> Certificate_handler (certificate_to_json g x)) \<and>
   Certificate_deepcopy (register_json_serializer_functions l g x s) =
     Some (deepcopy_method_for_x509_certificate l)"
proof -
  let ?reg = "register_json_serializer_functions l g x"
  have twice: "?reg (?reg t) = ?reg t" for t :: "'a process_state"
    by (simp add: register_json_serializer_functions_def dispatch_register_def Let_def
          fun_upd_twist)
  have "(?reg ^^ Suc k) s = ?reg s" for k
    by (induction k) (simp_all add: twice)
  then show ?thesis
    using twice [of s]
    by (simp add: register_json_serializer_functions_def dispatch_register_def Let_def)
qed

text \<open>
  C7. \<open>_oid_to_json\<close> returns the dotted string of any object identifier (it is a total
  function: no error result), and on 1.2.840.113549.1.1.11 that is the string
  "1.2.840.113549.1.1.11".
\<close>

theorem oid_to_json_dotted_string:
  "oid_to_json obj = dotted_string obj \<and>
   oid_to_json (ObjectIdentifier ''1.2.840.113549.1.1.11'') = ''1.2.840.113549.1.1.11''"
  by (simp add: oid_to_json_def)




text \<open>
  C9. The \<open>__deepcopy__\<close> method that registration installs does not look at its memo
  argument: with any two memo values it returns the same thing, namely what parsing the
  certificate's PEM encoding returns.
\<close>

theorem deepcopy_ignores_memo:
  "\<exists>f. Certificate_deepcopy (register_json_serializer_functions l g x s) = Some f \<and>
        (\<forall>c memo memo'. f c memo = f c memo' \<and> f c memo = l (public_bytes c PEM))"
  by (simp add: register_json_serializer_functions_def Let_def
        deepcopy_method_for_x509_certificate_def)

text \<open>
  C10. The \<open>algorithm\<close> entry of \<open>publicKey\<close> is the name of the key object's class, so
  two certificates whose key objects have classes of different names get different
  \<open>algorithm\<close> strings, also when the keys are of the same kind.
\<close>

theorem certificate_to_json_algorithm_is_class_name:
  assumes "certificate_to_json g x c = Inr r" and "certificate_to_json g x c' = Inr r'"
  shows "\<exists>m m'.
           public_key_entry r = Some m \<and> public_key_entry r' = Some m' \<and>
           map_of m ''algorithm'' = Some (Str (class_name (public_key c))) \<and>
           map_of m' ''algorithm'' = Some (Str (class_name (public_key c'))) \<and>
           (class_name (public_key c) \<noteq> class_name (public_key c') \<longrightarrow>
              map_of m ''algorithm'' \<noteq> map_of m' ''algorithm'')"
  using certificate_to_json_result [OF assms(1)] certificate_to_json_result [OF assms(2)]
  unfolding public_key_entry_def
  by auto

theorem certificate_to_json_algorithm_is_class_name_witness:
  "certificate_to_json example_digest example_dns_names example_rsa_certificate =
     Inr example_rsa_result \<and>
   certificate_to_json example_digest example_dns_names example_rsa_certificate' =
     Inr example_rsa_result' \<and>
   variant (public_key example_rsa_certificate) = variant (public_key example_rsa_certificate') \<and>
   class_name (public_key example_rsa_certificate) \<noteq>
     class_name (public_key example_rsa_certificate') \<and>
   (\<exists>m m'.
      public_key_entry example_rsa_result = Some m \<and>
      public_key_entry example_rsa_result' = Some m' \<and>
      map_of m ''algorithm'' = Some (Str ''_RSAPublicKey'') \<and>
      map_of m' ''algorithm'' = Some (Str ''RSAPublicKey'') \<and>
      map_of m ''algorithm'' \<noteq> map_of m' ''algorithm'')"
  using example_rsa_returns example_rsa_returns'
    certificate_to_json_algorithm_is_class_name [OF example_rsa_returns example_rsa_returns']
  by (simp add: example_rsa_certificate_def example_rsa_certificate'_def)

end
